theory Spec2Isabelle
  imports Complex_Main
begin

section \<open>Python exceptions as values\<close>

text \<open>
  Every raise of the modelled Python code is a value of this type; a function that can
  raise returns \<open>error + 'a\<close> with \<open>Inl\<close> for the exception.
\<close>

datatype error =
  ValueError | RuntimeError | IndexError | AttributeError | IOError | TypeError | OverflowError

section \<open>pybot/utils/dataset/kitti.py: calibration lookup\<close>

text \<open>
  \<^verbatim>\<open>int(sequence)\<close> on a string: surrounding whitespace is stripped, one optional sign
  is read, and what is left must be a non-empty run of decimal digits; anything else raises
  ValueError.
\<close>

definition is_space :: "char \<Rightarrow> bool" where
  "is_space c = (c \<in> set [CHR '' '', CHR 0x09, CHR 0x0A, CHR 0x0B, CHR 0x0C, CHR 0x0D])"

definition is_digit :: "char \<Rightarrow> bool" where
  "is_digit c = (48 \<le> (of_char c :: nat) \<and> (of_char c :: nat) \<le> 57)"

definition digit_val :: "char \<Rightarrow> int" where
  "digit_val c = of_char c - 48"

definition strip :: "string \<Rightarrow> string" where
  "strip s = rev (dropWhile is_space (rev (dropWhile is_space s)))"

definition digits_val :: "string \<Rightarrow> int option" where
  "digits_val ds =
     (if ds \<noteq> [] \<and> list_all is_digit ds
      then Some (foldl (\<lambda>a c. 10 * a + digit_val c) 0 ds) else None)"

definition py_int :: "string \<Rightarrow> int option" where
  "py_int s =
     (case strip s of
        [] \<Rightarrow> None
      | c # cs \<Rightarrow>
          if c = CHR ''-'' then map_option uminus (digits_val cs)
          else if c = CHR ''+'' then digits_val cs
          else digits_val (c # cs))"

text \<open>
  \<^verbatim>\<open>StereoCamera.from_calib_params(fx, fy, cx, cy, baseline_px=..., shape=...)\<close>: the
  class lives in pybot.vision.camera_utils; only the parameters it is built from are kept.
  \<^verbatim>\<open>.scaled(scale)\<close> is kept symbolic: the camera together with the scale.
\<close>

record stereo_camera =
  fx :: real
  fy :: real
  cx :: real
  cy :: real
  baseline_px :: real
  shape :: "nat \<times> nat"

datatype scaled_camera = Scaled stereo_camera real

definition from_calib_params ::
  "real \<Rightarrow> real \<Rightarrow> real \<Rightarrow> real \<Rightarrow> real \<Rightarrow> nat \<times> nat \<Rightarrow> stereo_camera" where
  "from_calib_params a b c d bl sh =
     \<lparr>fx = a, fy = b, cx = c, cy = d, baseline_px = bl, shape = sh\<rparr>"

definition scaled :: "stereo_camera \<Rightarrow> real \<Rightarrow> scaled_camera" where
  "scaled cam scale = Scaled cam scale"

definition kitti_00_02 :: stereo_camera where
  "kitti_00_02 = from_calib_params 718.86 718.86 607.19 185.22 386.1448 (376, 1241)"

definition kitti_03 :: stereo_camera where
  "kitti_03 = from_calib_params 721.5377 721.5377 609.5593 172.854 387.5744 (376, 1241)"

definition kitti_04_12 :: stereo_camera where
  "kitti_04_12 = from_calib_params 707.0912 707.0912 601.8873 183.1104 379.8145 (376, 1241)"

text \<open>The branch taken once \<^verbatim>\<open>seq = int(sequence)\<close> has succeeded.\<close>

definition kitti_stereo_calib_seq :: "int \<Rightarrow> real \<Rightarrow> error + scaled_camera" where
  "kitti_stereo_calib_seq seq scale =
     (if seq \<ge> 0 \<and> seq \<le> 2 then Inr (scaled kitti_00_02 scale)
      else if seq = 3 then Inr (scaled kitti_03 scale)
      else if seq \<ge> 4 \<and> seq \<le> 12 then Inr (scaled kitti_04_12 scale)
      else Inl RuntimeError)"

definition kitti_stereo_calib :: "string \<Rightarrow> real \<Rightarrow> error + scaled_camera" where
  "kitti_stereo_calib sequence scale =
     (case py_int sequence of
        None \<Rightarrow> Inl ValueError
      | Some seq \<Rightarrow> kitti_stereo_calib_seq seq scale)"

section \<open>trackers/base_klt.py: the track manager used by the KLT orchestrator\<close>

text \<open>A 2-D point \<open>(x, y)\<close>; a row of the numpy arrays the tracker passes around.\<close>

type_synonym point = "real \<times> real"

text \<open>
  \<^verbatim>\<open>collections.deque(maxlen=m).append(x)\<close>: the new element goes to the right end and the
  left end is dropped once more than \<open>m\<close> elements are held.
\<close>

definition deque_append :: "nat \<Rightarrow> 'a list \<Rightarrow> 'a \<Rightarrow> 'a list" where
  "deque_append m xs x = (let ys = xs @ [x] in drop (length ys - m) ys)"

text \<open>
  Modelled from the spec: the class TrackManager of bot_vision.trackers is imported by
  base_klt.py and is not among the sources. The spec's data model gives it a mapping from
  track id to a bounded history of observations (most recent last), ids that are allocated
  increasingly and never reused, and the operations \<open>ids\<close>, \<open>pts\<close>, \<open>tracks\<close> and
  \<open>add(points, ids, prune)\<close>. The mapping is an association list in insertion order. A point
  the optical-flow estimator flags as failed is \<open>None\<close>; \<open>add\<close> leaves flagged points out
  together with their ids.
\<close>

record track_manager =
  tm_maxlen :: nat
  tm_next_id :: nat
  tm_tracks :: "(nat \<times> point list) list"

definition TrackManager :: "nat \<Rightarrow> track_manager" where
  "TrackManager maxlen = \<lparr>tm_maxlen = maxlen, tm_next_id = 0, tm_tracks = []\<rparr>"

definition tm_ids :: "track_manager \<Rightarrow> nat list" where
  "tm_ids tm = map fst (tm_tracks tm)"

text \<open>
  Modelled from the spec: \<open>pts\<close> is the latest position of every active track, in the order
  of \<open>ids\<close>, and an empty container (never none) when there are no tracks. The result is an
  option only because the caller tests it against None. A history is never empty when the
  maximum length is positive.
\<close>

definition tm_pts :: "track_manager \<Rightarrow> point list option" where
  "tm_pts tm = Some (map (\<lambda>(tid, hist). last hist) (tm_tracks tm))"

fun tm_append :: "nat \<Rightarrow> (nat \<times> point list) list \<Rightarrow> nat \<Rightarrow> point \<Rightarrow> (nat \<times> point list) list" where
  "tm_append m [] tid p = [(tid, deque_append m [] p)]"
| "tm_append m ((j, hist) # rest) tid p =
     (if tid = j then (j, deque_append m hist p) # rest
      else (j, hist) # tm_append m rest tid p)"

definition valid_pairs :: "nat list \<Rightarrow> point option list \<Rightarrow> (nat \<times> point) list" where
  "valid_pairs ids pts =
     List.map_filter (\<lambda>(tid, p). map_option (\<lambda>q. (tid, q)) p) (zip ids pts)"

text \<open>
  Modelled from the spec: \<open>add\<close>. Empty input, or ids that do not match the points in
  number, is "no update this frame". With ids, every unflagged (id, point) pair is appended
  to the history of its track, the oldest entry leaving when the history is full, and with
  \<open>prune\<close> every track whose id is not among them is removed. Without ids every unflagged
  point becomes a new single-entry track with a fresh id.
\<close>

definition tm_add ::
  "track_manager \<Rightarrow> point option list \<Rightarrow> nat list option \<Rightarrow> bool \<Rightarrow> track_manager" where
  "tm_add tm pts ids prune =
     (if pts = [] then tm
      else case ids of
        None \<Rightarrow>
          (let new = List.map_filter id pts;
               fresh = [tm_next_id tm ..< tm_next_id tm + length new];
               kept = (if prune then [] else tm_tracks tm)
           in tm\<lparr>tm_tracks := kept @ zip fresh (map (\<lambda>p. deque_append (tm_maxlen tm) [] p) new),
                 tm_next_id := tm_next_id tm + length new\<rparr>)
      | Some tids \<Rightarrow>
          if length tids \<noteq> length pts then tm
          else
            (let upd = valid_pairs tids pts;
                 tr1 = foldl (\<lambda>tr (tid, p). tm_append (tm_maxlen tm) tr tid p) (tm_tracks tm) upd;
                 tr2 = (if prune then filter (\<lambda>(tid, hist). tid \<in> set (map fst upd)) tr1 else tr1)
             in tm\<lparr>tm_tracks := tr2,
                   tm_next_id := foldl max (tm_next_id tm) (map (\<lambda>(tid, p). Suc tid) upd)\<rparr>))"

section \<open>trackers/base_klt.py: BaseKLT.matches\<close>

text \<open>Python indexing of a sequence: a negative index counts from the end.\<close>

definition py_index :: "'a list \<Rightarrow> int \<Rightarrow> error + 'a" where
  "py_index xs i =
     (if 0 \<le> i \<and> i < int (length xs) then Inr (xs ! nat i)
      else if i < 0 \<and> - int (length xs) \<le> i then Inr (xs ! nat (i + int (length xs)))
      else Inl IndexError)"

text \<open>
  The loop of \<open>matches\<close> over \<^verbatim>\<open>self.tm_.tracks.iteritems()\<close>, with the three lists it
  appends to. \<^verbatim>\<open>len(pts)\<close> is the number of observations of the track.
\<close>

fun matches_loop ::
  "(nat \<times> point list) list \<Rightarrow> int \<Rightarrow> int \<Rightarrow> nat list \<times> point list \<times> point list
     \<Rightarrow> error + (nat list \<times> point list \<times> point list)" where
  "matches_loop [] index1 index2 acc = Inr acc"
| "matches_loop ((tid, pts) # rest) index1 index2 (tids, p1, p2) =
     (if int (length pts) > abs index1 \<and> int (length pts) > abs index2 then
        (case py_index pts index1 of
           Inl e \<Rightarrow> Inl e
         | Inr a \<Rightarrow>
             (case py_index pts index2 of
                Inl e \<Rightarrow> Inl e
              | Inr b \<Rightarrow> matches_loop rest index1 index2 (tids @ [tid], p1 @ [a], p2 @ [b])))
      else matches_loop rest index1 index2 (tids, p1, p2))"

text \<open>
  \<^verbatim>\<open>np.vstack\<close> of an empty list raises, and the bare \<^verbatim>\<open>except\<close> then returns three empty
  arrays. The loop is outside the \<^verbatim>\<open>try\<close>: an exception there leaves \<open>matches\<close>.
\<close>

definition matches ::
  "track_manager \<Rightarrow> int \<Rightarrow> int \<Rightarrow> error + (nat list \<times> point list \<times> point list)" where
  "matches tm index1 index2 =
     (case matches_loop (tm_tracks tm) index1 index2 ([], [], []) of
        Inl e \<Rightarrow> Inl e
      | Inr (tids, p1, p2) \<Rightarrow>
          if p1 = [] \<or> p2 = [] then Inr ([], [], []) else Inr (tids, p1, p2))"

text \<open>The specification of the claim: the tracks that have an observation at an offset.\<close>

definition has_offset :: "point list \<Rightarrow> int \<Rightarrow> bool" where
  "has_offset hist i = (case py_index hist i of Inl e \<Rightarrow> False | Inr p \<Rightarrow> True)"

section \<open>trackers/base_klt.py: OpenCVKLT\<close>

text \<open>
  The shape of an image array: (rows, columns) for a single-channel image and
  (rows, columns, 3) for a colour image.
\<close>

datatype array_shape = Gray nat nat | BGR nat nat

fun shape_rows :: "array_shape \<Rightarrow> nat" where
  "shape_rows (Gray r c) = r"
| "shape_rows (BGR r c) = r"

fun shape_cols :: "array_shape \<Rightarrow> nat" where
  "shape_cols (Gray r c) = c"
| "shape_cols (BGR r c) = c"

fun is_colour :: "array_shape \<Rightarrow> bool" where
  "is_colour (Gray r c) = False"
| "is_colour (BGR r c) = True"

text \<open>
  The occupancy mask: an array of bytes of the shape of the image, as that shape and the
  value at each row \<open>y\<close> and column \<open>x\<close> (in every channel, when there are three).
\<close>

record mask =
  mshape :: array_shape
  px :: "int \<Rightarrow> int \<Rightarrow> nat"

text \<open>\<^verbatim>\<open>np.ones(shape=shape, dtype=np.uint8) * 255\<close>\<close>

definition ones255 :: "array_shape \<Rightarrow> mask" where
  "ones255 shp = \<lparr>mshape = shp, px = (\<lambda>y x. 255)\<rparr>"

text \<open>\<^verbatim>\<open>int(v)\<close> on a float, and \<^verbatim>\<open>astype(np.int32)\<close>: truncation towards zero.\<close>

definition py_trunc :: "real \<Rightarrow> int" where
  "py_trunc v = (if v \<ge> 0 then \<lfloor>v\<rfloor> else \<lceil>v\<rceil>)"

definition pixel :: "point \<Rightarrow> int \<times> int" where
  "pixel pt = (py_trunc (fst pt), py_trunc (snd pt))"

text \<open>
  The collaborators of \<open>process\<close> that are not part of the repository, as parameters:
  \<^verbatim>\<open>gaussian_blur(to_gray(im))\<close>, \<^verbatim>\<open>im.shape\<close>, \<^verbatim>\<open>self.tracker_.track\<close> (a flagged point is
  \<open>None\<close>), \<^verbatim>\<open>self.detector_.process\<close>, and OpenCV's
  \<^verbatim>\<open>cv2.circle(mask, center, radius, color, -1, lineType=cv2.CV_AA)\<close>, which gives the values
  the mask has after the anti-aliased filled circle is drawn, or raises and leaves the mask
  as it is.
\<close>

record 'im collaborators =
  preprocess :: "'im \<Rightarrow> 'im"
  im_shape :: "'im \<Rightarrow> array_shape"
  tracker_track :: "'im \<Rightarrow> 'im \<Rightarrow> point list \<Rightarrow> point option list"
  detector_process :: "'im \<Rightarrow> mask \<Rightarrow> point list"
  cv2_circle :: "mask \<Rightarrow> int \<times> int \<Rightarrow> int \<Rightarrow> nat \<Rightarrow> error + (int \<Rightarrow> int \<Rightarrow> nat)"

text \<open>
  The loop of \<open>create_mask\<close>, inside its \<^verbatim>\<open>try\<close>: the first circle that raises ends the
  loop, the bare \<^verbatim>\<open>except\<close> swallows the exception, and the points after it get no circle.
\<close>

fun draw_circles ::
  "(mask \<Rightarrow> int \<times> int \<Rightarrow> int \<Rightarrow> nat \<Rightarrow> error + (int \<Rightarrow> int \<Rightarrow> nat)) \<Rightarrow> mask \<Rightarrow> point list \<Rightarrow> mask" where
  "draw_circles circle m [] = m"
| "draw_circles circle m (pt # pts) =
     (case circle m (pixel pt) 9 0 of
        Inl e \<Rightarrow> m
      | Inr v \<Rightarrow> draw_circles circle (m\<lparr>px := v\<rparr>) pts)"

text \<open>
  \<open>create_mask\<close>. Iterating over \<open>pts = None\<close> raises TypeError, swallowed as well: the mask
  stays all 255.
\<close>

definition create_mask :: "'im collaborators \<Rightarrow> array_shape \<Rightarrow> point list option \<Rightarrow> mask" where
  "create_mask ext shp pts =
     (let mask = ones255 shp
      in case pts of
           None \<Rightarrow> mask
         | Some ps \<Rightarrow> draw_circles (cv2_circle ext) mask ps)"

text \<open>
  numpy indexing of an axis of length \<open>n\<close> by an integer: a negative index counts from the
  end, anything outside \<open>-n .. n-1\<close> raises IndexError.
\<close>

definition np_index :: "nat \<Rightarrow> int \<Rightarrow> int option" where
  "np_index n i =
     (if 0 \<le> i \<and> i < int n then Some i
      else if - int n \<le> i \<and> i < 0 then Some (i + int n)
      else None)"

definition mask_at :: "mask \<Rightarrow> int \<times> int \<Rightarrow> nat option" where
  "mask_at m xy =
     (case np_index (shape_rows (mshape m)) (snd xy) of
        None \<Rightarrow> None
      | Some y \<Rightarrow>
          (case np_index (shape_cols (mshape m)) (fst xy) of
             None \<Rightarrow> None
           | Some x \<Rightarrow> Some (px m y x)))"

text \<open>
  \<^verbatim>\<open>xy = detected_pts.astype(np.int32); valid = mask[xy[:,1], xy[:,0]] > 0;
  new_pts = detected_pts[valid]\<close>. One index out of range fails the whole lookup. On the mask
  of a colour image \<open>valid\<close> has three columns, and indexing the two-column \<open>detected_pts\<close>
  with it raises IndexError.
\<close>

definition filter_detected :: "mask \<Rightarrow> point list \<Rightarrow> error + point list" where
  "filter_detected m detected_pts =
     (if \<not> list_all (\<lambda>p. mask_at m (pixel p) \<noteq> None) detected_pts then Inl IndexError
      else if is_colour (mshape m) then Inl IndexError
      else Inr (filter (\<lambda>p. case mask_at m (pixel p) of None \<Rightarrow> False | Some v \<Rightarrow> v > 0)
                  detected_pts))"

text \<open>The calls \<open>process\<close> makes on its collaborators and on the track manager, in order.\<close>

datatype 'im event =
    Track 'im 'im "point list"
  | TmAdd "point option list" "nat list option" bool
  | Imshow mask
  | Detect 'im mask

text \<open>
  The fields \<^verbatim>\<open>tm_\<close>, \<^verbatim>\<open>min_tracks_\<close>, \<^verbatim>\<open>ims_\<close> and \<^verbatim>\<open>add_features_\<close> of the instance.
\<close>

record 'im klt =
  self_tm :: track_manager
  self_min_tracks :: nat
  self_ims :: "'im list"
  self_add_features :: bool

text \<open>\<open>BaseKLT.__init__\<close> followed by \<open>OpenCVKLT.__init__\<close>.\<close>

definition OpenCVKLT :: "nat \<Rightarrow> nat \<Rightarrow> 'im klt" where
  "OpenCVKLT max_track_length min_tracks =
     \<lparr>self_tm = TrackManager max_track_length, self_min_tracks = min_tracks,
      self_ims = [], self_add_features = True\<rparr>"

definition reset :: "'im klt \<Rightarrow> 'im klt" where
  "reset s = s\<lparr>self_add_features := True\<rparr>"

text \<open>
  \<open>OpenCVKLT.process\<close>. The result is the instance as the call leaves it (also when it
  raises), the calls made, and the returned \<open>(ids, pts)\<close> or the exception.
\<close>

definition process ::
  "'im collaborators \<Rightarrow> 'im klt \<Rightarrow> 'im \<Rightarrow> point list option
     \<Rightarrow> 'im klt \<times> 'im event list \<times> (error + nat list \<times> point list option)" where
  "process ext s im detected_pts =
     (let ims = deque_append 2 (self_ims s) (preprocess ext im);
          s1 = s\<lparr>self_ims := ims\<rparr>;
          pids = tm_ids (self_tm s1);
          ppts = tm_pts (self_tm s1);
          (s2, log2) =
            (case ppts of
               None \<Rightarrow> (s1, [])
             | Some pp \<Rightarrow>
                 if length pp \<noteq> 0 \<and> length ims = 2 then
                   (let pts = tracker_track ext (ims ! (length ims - 2)) (ims ! (length ims - 1)) pp
                    in (s1\<lparr>self_tm := tm_add (self_tm s1) pts (Some pids) True\<rparr>,
                        [Track (ims ! (length ims - 2)) (ims ! (length ims - 1)) pp,
                         TmAdd pts (Some pids) True]))
                 else (s1, []));
          s3 = s2\<lparr>self_add_features :=
                  (self_add_features s2 \<or> ppts = None \<or>
                   (case ppts of None \<Rightarrow> False | Some pp \<Rightarrow> length pp < self_min_tracks s2))\<rparr>
      in if self_add_features s3 then
           (let mask = create_mask ext (im_shape ext im) ppts;
                log3 = log2 @ [Imshow mask]
            in case detected_pts of
                 None \<Rightarrow>
                   (let new_pts = detector_process ext (ims ! (length ims - 1)) mask;
                        s4 = s3\<lparr>self_tm := tm_add (self_tm s3) (map Some new_pts) None False\<rparr>;
                        s5 = s4\<lparr>self_add_features := False\<rparr>
                    in (s5, log3 @ [Detect (ims ! (length ims - 1)) mask,
                                    TmAdd (map Some new_pts) None False],
                        Inr (tm_ids (self_tm s5), tm_pts (self_tm s5))))
               | Some dp \<Rightarrow>
                   (case filter_detected mask dp of
                      Inl e \<Rightarrow> (s3, log3, Inl e)
                    | Inr new_pts \<Rightarrow>
                        (let s4 = s3\<lparr>self_tm := tm_add (self_tm s3) (map Some new_pts) None False\<rparr>;
                             s5 = s4\<lparr>self_add_features := False\<rparr>
                         in (s5, log3 @ [TmAdd (map Some new_pts) None False],
                             Inr (tm_ids (self_tm s5), tm_pts (self_tm s5))))))
         else (s3, log2, Inr (tm_ids (self_tm s3), tm_pts (self_tm s3))))"


text \<open>The calls of the optical-flow step: the tracker, and an \<open>add\<close> that prunes.\<close>

fun is_flow_call :: "'im event \<Rightarrow> bool" where
  "is_flow_call (Track a b pp) = True"
| "is_flow_call (TmAdd pts ids prune) = prune"
| "is_flow_call (Imshow m) = False"
| "is_flow_call (Detect a m) = False"


text \<open>
  A circle for the examples: the filled disk without anti-aliasing, and OverflowError for a
  centre that does not fit a C int. The examples read the mask only at pixels that are more
  than five pixels away from the rim of every circle drawn.
\<close>

definition in_disk :: "int \<times> int \<Rightarrow> int \<Rightarrow> int \<times> int \<Rightarrow> bool" where
  "in_disk c r p = ((fst p - fst c)\<^sup>2 + (snd p - snd c)\<^sup>2 \<le> r\<^sup>2)"

definition ex_circle :: "mask \<Rightarrow> int \<times> int \<Rightarrow> int \<Rightarrow> nat \<Rightarrow> error + (int \<Rightarrow> int \<Rightarrow> nat)" where
  "ex_circle m c r color =
     (if abs (fst c) \<ge> 2147483648 \<or> abs (snd c) \<ge> 2147483648 then Inl OverflowError
      else Inr (\<lambda>y x. if in_disk c r (x, y) then color else px m y x))"

text \<open>
  Concrete collaborators for the examples: images are numbered, preprocessing keeps the
  number, every image is single-channel with 40 rows and 40 columns, the flow estimator
  moves every point to (30, 30), and the detector finds one corner at (5, 5) where the mask
  allows it.
\<close>

definition ex_collaborators :: "int collaborators" where
  "ex_collaborators =
     \<lparr>preprocess = (\<lambda>i. i), im_shape = (\<lambda>i. Gray 40 40),
      tracker_track = (\<lambda>a b ps. map (\<lambda>p. Some (30, 30)) ps),
      detector_process = (\<lambda>i m. if px m 5 5 > 0 then [(5, 5)] else []),
      cv2_circle = ex_circle\<rparr>"

text \<open>The same with a detector that finds nothing.\<close>

definition ex_blind :: "int collaborators" where
  "ex_blind = ex_collaborators\<lparr>detector_process := (\<lambda>i m. [])\<rparr>"

text \<open>The same with a flow estimator that flags every point as failed.\<close>

definition ex_lost :: "int collaborators" where
  "ex_lost = ex_collaborators\<lparr>tracker_track := (\<lambda>a b ps. map (\<lambda>p. None) ps)\<rparr>"

text \<open>The same with a detector that finds nothing as well.\<close>

definition ex_lost_blind :: "int collaborators" where
  "ex_lost_blind = ex_lost\<lparr>detector_process := (\<lambda>i m. [])\<rparr>"

text \<open>The same with colour images.\<close>

definition ex_colour :: "int collaborators" where
  "ex_colour = ex_collaborators\<lparr>im_shape := (\<lambda>i. BGR 40 40)\<rparr>"

text \<open>An instance that has seen image 0 and tracks one point, with \<open>min_tracks = 3\<close>.\<close>

definition ex_klt :: "int klt" where
  "ex_klt =
     \<lparr>self_tm = \<lparr>tm_maxlen = 20, tm_next_id = 1, tm_tracks = [(0, [(10, 30)])]\<rparr>,
      self_min_tracks = 3, self_ims = [0], self_add_features = False\<rparr>"

section \<open>pybot/utils/dataset/kitti.py: the dataset composers\<close>

text \<open>
  \<^verbatim>\<open>os.path.join(a, b)\<close> on POSIX: an absolute second component replaces the first,
  otherwise the two are put together with one separator.
\<close>

definition path_join :: "string \<Rightarrow> string \<Rightarrow> string" where
  "path_join a b =
     (if b \<noteq> [] \<and> hd b = CHR ''/'' then b
      else if a = [] \<or> last a = CHR ''/'' then a @ b
      else a @ ''/'' @ b)"

text \<open>
  What a composer holds for one modality: a reader of the dataset-reader module, as the
  records its \<open>iteritems\<close> yields one after the other, or \<^verbatim>\<open>itertools.repeat(None)\<close>, which
  has no \<open>iteritems\<close>.
\<close>

datatype 'a source = Reader "'a list" | RepeatNone

text \<open>
  Modelled from the spec: the readers FileReader, DatasetReader, ImageDatasetReader,
  StereoDatasetReader and VelodyneDatasetReader of pybot.utils.dataset_readers are not among
  the sources. The spec has them as sequential file iterators that produce a sequence of
  decoded records; what each constructor finds on disk, or the exception it raises, is a
  parameter, asked with the path or template the composer builds. \<open>start_idx\<close> and
  \<open>max_files\<close> are passed through unchanged and are part of what is asked.
\<close>

record ('img, 'pose, 'pc, 'oxt) filesystem =
  expanduser :: "string \<Rightarrow> string"
  StereoDatasetReader :: "string \<Rightarrow> string \<Rightarrow> string \<Rightarrow> error + ('img \<times> 'img) list"
  FileReader :: "string \<Rightarrow> error + 'pose list"
  VelodyneDatasetReader :: "string \<Rightarrow> error + 'pc list"
  DatasetReader :: "string \<Rightarrow> error + 'oxt list"
  open_lines :: "string \<Rightarrow> error + string list"

text \<open>The fields of a \<open>KITTIDatasetReader\<close> instance.\<close>

record ('img, 'pose, 'pc) kitti_reader =
  self_sequence :: string
  self_scale :: real
  self_calib :: scaled_camera
  self_stereo :: "('img \<times> 'img) list"
  self_poses :: "'pose source"
  self_velodyne :: "'pc source"

text \<open>
  \<^verbatim>\<open>try: x = R(...)  except Exception: x = repeat(None)\<close>, for a reader constructor's outcome.
\<close>

definition or_repeat_none :: "error + 'a list \<Rightarrow> 'a source" where
  "or_repeat_none r = (case r of Inl e \<Rightarrow> RepeatNone | Inr items \<Rightarrow> Reader items)"

text \<open>\<open>KITTIDatasetReader.__init__\<close>\<close>

definition KITTIDatasetReader ::
  "('img, 'pose, 'pc, 'oxt) filesystem \<Rightarrow> string \<Rightarrow> string \<Rightarrow> string \<Rightarrow> string \<Rightarrow> string
     \<Rightarrow> real \<Rightarrow> error + ('img, 'pose, 'pc) kitti_reader" where
  "KITTIDatasetReader fs directory sequence left_template right_template velodyne_template scale =
     (case kitti_stereo_calib sequence scale of
        Inl e \<Rightarrow> Inl e
      | Inr cal \<Rightarrow>
          (let seq_directory =
                 path_join (path_join (expanduser fs directory) ''sequences'') sequence
           in case StereoDatasetReader fs seq_directory
                     (path_join seq_directory left_template)
                     (path_join seq_directory right_template) of
                Inl e \<Rightarrow> Inl e
              | Inr st \<Rightarrow>
                  (let pose_fn = path_join (path_join (expanduser fs directory) ''poses'')
                                   (sequence @ ''.txt'');
                       ps = or_repeat_none (FileReader fs pose_fn);
                       vel = or_repeat_none
                               (VelodyneDatasetReader fs (path_join seq_directory velodyne_template))
                   in Inr \<lparr>self_sequence = sequence, self_scale = scale, self_calib = cal,
                           self_stereo = st, self_poses = ps, self_velodyne = vel\<rparr>)))"

text \<open>
  The frame record \<^verbatim>\<open>AttrDict(left=left, right=right, velodyne=None, pose=pose)\<close>.
\<close>

record ('img, 'pose, 'pc) frame =
  left :: 'img
  right :: 'img
  velodyne :: "'pc option"
  pose :: 'pose

text \<open>
  \<open>KITTIDatasetReader.iterframes\<close>: the frames the generator yields, and the exception that
  ends it, if any. \<^verbatim>\<open>self.poses.iteritems\<close> is looked up before the first frame.
\<close>

definition iterframes ::
  "('img, 'pose, 'pc) kitti_reader \<Rightarrow> ('img, 'pose, 'pc) frame list \<times> error option" where
  "iterframes r =
     (case self_poses r of
        RepeatNone \<Rightarrow> ([], Some AttributeError)
      | Reader ps \<Rightarrow>
          (map (\<lambda>((l, rt), p). \<lparr>left = l, right = rt, velodyne = None, pose = p\<rparr>)
             (zip (self_stereo r) ps), None))"

text \<open>\<open>KITTIDatasetReader.iter_velodyne_frames\<close>\<close>

definition iter_velodyne_frames :: "('img, 'pose, 'pc) kitti_reader \<Rightarrow> error + 'pc list" where
  "iter_velodyne_frames r =
     (case self_velodyne r of RepeatNone \<Rightarrow> Inl AttributeError | Reader pcs \<Rightarrow> Inr pcs)"

text \<open>
  \<open>KITTIRawDatasetReader\<close>: the fields of the base class, \<open>oxts\<close>, and \<open>oxt_formats\<close>, which
  is not set when reading the format file fails.
\<close>

record ('img, 'pose, 'pc, 'oxt) kitti_raw_reader = "('img, 'pose, 'pc) kitti_reader" +
  self_oxts :: "'oxt source"
  self_oxt_formats :: "string list option"

text \<open>
  \<open>KITTIRawDatasetReader.__init__\<close>: the base constructor, then the stereo reader, the poses
  (in a \<^verbatim>\<open>try\<close>), the velodyne reader (not in a \<^verbatim>\<open>try\<close>) and the inertial records (in a
  \<^verbatim>\<open>try\<close> that also covers reading the format file) once more.
\<close>

definition KITTIRawDatasetReader ::
  "('img, 'pose, 'pc, 'oxt) filesystem \<Rightarrow> string \<Rightarrow> string \<Rightarrow> string \<Rightarrow> string \<Rightarrow> string
     \<Rightarrow> string \<Rightarrow> real \<Rightarrow> error + ('img, 'pose, 'pc, 'oxt) kitti_raw_reader" where
  "KITTIRawDatasetReader fs directory sequence left_template right_template velodyne_template
       oxt_template scale =
     (case KITTIDatasetReader fs directory sequence left_template right_template
             velodyne_template scale of
        Inl e \<Rightarrow> Inl e
      | Inr base \<Rightarrow>
          (case StereoDatasetReader fs directory left_template right_template of
             Inl e \<Rightarrow> Inl e
           | Inr st \<Rightarrow>
               (let pose_fn = path_join (path_join (expanduser fs directory) ''poses'')
                                (sequence @ ''.txt'');
                    ps = or_repeat_none (FileReader fs pose_fn)
                in case VelodyneDatasetReader fs (path_join directory velodyne_template) of
                     Inl e \<Rightarrow> Inl e
                   | Inr vel \<Rightarrow>
                       (let oxt_format_fn =
                              path_join (expanduser fs directory) ''oxts/dataformat.txt'';
                            oxt_fn = path_join (expanduser fs directory) oxt_template;
                            (fmts, ox) =
                              (case open_lines fs oxt_format_fn of
                                 Inl e \<Rightarrow> (None, RepeatNone)
                               | Inr lines \<Rightarrow>
                                   (Some (map (takeWhile (\<lambda>c. c \<noteq> CHR '':'')) lines),
                                    or_repeat_none (DatasetReader fs oxt_fn)))
                        in Inr (kitti_reader.extend
                                  (base\<lparr>self_stereo := st, self_poses := ps, self_velodyne := Reader vel\<rparr>)
                                  (kitti_raw_reader.fields ox fmts))))))"

text \<open>
  \<open>KITTIStereoGroundTruthDatasetReader\<close>: its constructor sets \<open>poses\<close> to
  \<^verbatim>\<open>repeat(None)\<close>; \<open>iterframes\<close> has the text of the one above.
\<close>

record ('img, 'pose) gt_reader =
  gt_scale :: real
  gt_stereo :: "('img \<times> 'img) list"
  gt_noc :: "'img list"
  gt_occ :: "'img list"
  gt_calib :: "stereo_camera list"
  gt_poses :: "'pose source"

text \<open>
  Modelled from the spec: the two ImageDatasetReader and the calibration DatasetReader of the
  ground-truth composer, again as what their constructors find for a template.
\<close>

record ('img, 'pose, 'pc, 'oxt) gt_filesystem = "('img, 'pose, 'pc, 'oxt) filesystem" +
  ImageDatasetReader :: "string \<Rightarrow> error + 'img list"
  CalibReader :: "string \<Rightarrow> error + stereo_camera list"

definition KITTIStereoGroundTruthDatasetReader ::
  "('img, 'pose, 'pc, 'oxt) gt_filesystem \<Rightarrow> string \<Rightarrow> bool \<Rightarrow> real
     \<Rightarrow> error + ('img, 'pose) gt_reader" where
  "KITTIStereoGroundTruthDatasetReader fs directory is_2015 scale =
     (let (left_dir, right_dir) =
            (if is_2015 then (''image_2'', ''image_3'') else (''image_0'', ''image_1''));
          (noc_dir, occ_dir) =
            (if is_2015 then (''disp_noc_0'', ''disp_occ_0'') else (''disp_noc'', ''disp_occ''))
      in case StereoDatasetReader fs (expanduser fs directory)
                (left_dir @ ''/%06i_10.png'') (right_dir @ ''/%06i_10.png'') of
           Inl e \<Rightarrow> Inl e
         | Inr st \<Rightarrow>
             (case ImageDatasetReader fs
                     (path_join (path_join (expanduser fs directory) noc_dir) ''%06i_10.png'') of
                Inl e \<Rightarrow> Inl e
              | Inr noc \<Rightarrow>
                  (case ImageDatasetReader fs
                          (path_join (path_join (expanduser fs directory) occ_dir)
                             ''%06i_10.png'') of
                     Inl e \<Rightarrow> Inl e
                   | Inr occ \<Rightarrow>
                       (case CalibReader fs
                               (path_join (expanduser fs directory) ''calib/%06i.txt'') of
                          Inl e \<Rightarrow> Inl e
                        | Inr cal \<Rightarrow>
                            Inr \<lparr>gt_scale = scale, gt_stereo = st, gt_noc = noc, gt_occ = occ,
                                 gt_calib = cal, gt_poses = RepeatNone\<rparr>))))"

definition gt_iterframes ::
  "('img, 'pose) gt_reader \<Rightarrow> ('img, 'pose, 'pc) frame list \<times> error option" where
  "gt_iterframes r =
     (case gt_poses r of
        RepeatNone \<Rightarrow> ([], Some AttributeError)
      | Reader ps \<Rightarrow>
          (map (\<lambda>((l, rt), p). \<lparr>left = l, right = rt, velodyne = None, pose = p\<rparr>)
             (zip (gt_stereo r) ps), None))"

text \<open>
  A dataset for the examples: every reader finds two records, except that there are no
  velodyne scans and the velodyne reader raises IOError.
\<close>

definition ex_fs :: "(nat, nat, nat, nat) filesystem" where
  "ex_fs =
     \<lparr>expanduser = (\<lambda>p. p),
      StereoDatasetReader = (\<lambda>d l r. Inr [(1, 2), (3, 4)]),
      FileReader = (\<lambda>p. Inr [10, 20]),
      VelodyneDatasetReader = (\<lambda>p. Inl IOError),
      DatasetReader = (\<lambda>p. Inr [7, 8]),
      open_lines = (\<lambda>p. Inr [''lat: latitude'', ''lon: longitude''])\<rparr>"

text \<open>
  A composer whose readers were all found, and a ground-truth composer to which a pose
  reader was assigned after construction.
\<close>

definition ex_reader :: "(nat, nat, nat) kitti_reader" where
  "ex_reader =
     \<lparr>self_sequence = ''00'', self_scale = 1, self_calib = scaled kitti_00_02 1,
      self_stereo = [(1, 2), (3, 4)], self_poses = Reader [10, 20],
      self_velodyne = Reader [5, 6]\<rparr>"

definition ex_gt_reader :: "(nat, nat) gt_reader" where
  "ex_gt_reader =
     \<lparr>gt_scale = 1, gt_stereo = [(1, 2), (3, 4)], gt_noc = [], gt_occ = [], gt_calib = [],
      gt_poses = Reader [10, 20]\<rparr>"

section \<open>pybot/utils/dataset/kitti.py: pose files\<close>

text \<open>Python's \<^verbatim>\<open>sep.join(xs)\<close> on strings.\<close>

fun py_join :: "string \<Rightarrow> string list \<Rightarrow> string" where
  "py_join sep [] = []"
| "py_join sep [x] = x"
| "py_join sep (x # y # ys) = x @ sep @ py_join sep (y # ys)"

text \<open>
  Modelled from the spec: RigidTransform of pybot.geometry.rigid_transform is not among the
  sources. The spec has a pose as a rigid 3-D transform, rotation and translation; here the
  rotation is its three rows. \<open>matrix34_flat x\<close> is \<^verbatim>\<open>(x.matrix[:3,:4]).flatten()\<close>: the top
  three rows of the 4 by 4 matrix, row by row.
\<close>

type_synonym 'a vec3 = "'a \<times> 'a \<times> 'a"

record 'a rigid_transform =
  rotation :: "'a vec3 \<times> 'a vec3 \<times> 'a vec3"
  tvec :: "'a vec3"

definition from_Rt :: "'a vec3 \<times> 'a vec3 \<times> 'a vec3 \<Rightarrow> 'a vec3 \<Rightarrow> 'a rigid_transform" where
  "from_Rt R t = \<lparr>rotation = R, tvec = t\<rparr>"

definition matrix34_flat :: "'a rigid_transform \<Rightarrow> 'a list" where
  "matrix34_flat x =
     (case rotation x of ((a, b, c), (d, e, f), (g, h, i)) \<Rightarrow>
        (case tvec x of (u, v, w) \<Rightarrow> [a, b, c, u, d, e, f, v, g, h, i, w]))"

text \<open>
  \<open>kitti_poses_to_str\<close>; \<open>str\<close> is Python's conversion of a float to a string, a parameter.
\<close>

definition kitti_poses_to_str :: "('a \<Rightarrow> string) \<Rightarrow> 'a rigid_transform list \<Rightarrow> string" where
  "kitti_poses_to_str str poses =
     py_join [CHR 0x0D, CHR 0x0A]
       (map (\<lambda>x. py_join '' '' (map str (matrix34_flat x))) poses)"

text \<open>
  \<^verbatim>\<open>np.fromfile(fn, dtype=np.float64, sep=' ')\<close> on the text of the file: the items between
  runs of whitespace are read as floats, up to the first that is not one. \<open>parse\<close> reads one
  whole item, a parameter; of an item that only starts with a number numpy keeps that
  number before it stops, here the item is not read.
\<close>

fun tokens :: "string \<Rightarrow> string \<Rightarrow> string list" where
  "tokens cur [] = (if cur = [] then [] else [cur])"
| "tokens cur (c # cs) =
     (if is_space c then (if cur = [] then tokens [] cs else cur # tokens [] cs)
      else tokens (cur @ [c]) cs)"

fun parse_prefix :: "(string \<Rightarrow> 'a option) \<Rightarrow> string list \<Rightarrow> 'a list" where
  "parse_prefix parse [] = []"
| "parse_prefix parse (t # ts) =
     (case parse t of None \<Rightarrow> [] | Some v \<Rightarrow> v # parse_prefix parse ts)"

definition np_fromfile :: "(string \<Rightarrow> 'a option) \<Rightarrow> string \<Rightarrow> 'a list" where
  "np_fromfile parse content = parse_prefix parse (tokens [] content)"

text \<open>\<^verbatim>\<open>.reshape(-1,12)\<close>: rows of twelve, ValueError (here None) when some are left over.\<close>

fun reshape12 :: "'a list \<Rightarrow> 'a list list option" where
  "reshape12 [] = Some []"
| "reshape12 (a # b # c # d # e # f # g # h # i # j # k # l # rest) =
     map_option ((#) [a, b, c, d, e, f, g, h, i, j, k, l]) (reshape12 rest)"
| "reshape12 xs = None"

text \<open>
  \<open>kitti_load_poses\<close>, on the text of the file \<open>fn\<close>: every row \<open>p\<close>, reshaped to 3 by 4,
  gives \<^verbatim>\<open>RigidTransform.from_Rt(p[:3,:3], p[:3,3])\<close>.
\<close>

definition row_to_pose :: "'a list \<Rightarrow> 'a rigid_transform" where
  "row_to_pose p =
     from_Rt ((p ! 0, p ! 1, p ! 2), (p ! 4, p ! 5, p ! 6), (p ! 8, p ! 9, p ! 10))
       (p ! 3, p ! 7, p ! 11)"

definition kitti_load_poses ::
  "(string \<Rightarrow> 'a option) \<Rightarrow> string \<Rightarrow> error + 'a rigid_transform list" where
  "kitti_load_poses parse content =
     (case reshape12 (np_fromfile parse content) of
        None \<Rightarrow> Inl ValueError
      | Some X \<Rightarrow> Inr (map row_to_pose X))"

text \<open>A pose with every entry sent through a conversion.\<close>

definition map_pose :: "('a \<Rightarrow> 'b) \<Rightarrow> 'a rigid_transform \<Rightarrow> 'b rigid_transform" where
  "map_pose conv x =
     (case rotation x of ((a, b, c), (d, e, f), (g, h, i)) \<Rightarrow>
        (case tvec x of (u, v, w) \<Rightarrow>
           \<lparr>rotation = ((conv a, conv b, conv c), (conv d, conv e, conv f),
                        (conv g, conv h, conv i)),
            tvec = (conv u, conv v, conv w)\<rparr>))"

text \<open>An item of the text: not empty and free of whitespace.\<close>

definition tok_ok :: "string \<Rightarrow> bool" where
  "tok_ok t = (t \<noteq> [] \<and> (\<forall>c \<in> set t. \<not> is_space c))"

text \<open>
  A conversion for the examples: whole numbers below 100 in decimal, read back by the
  integer parser above.
\<close>

definition ex_str :: "int \<Rightarrow> string" where
  "ex_str i =
     (let n = nat (abs i);
          ds = (if n < 10 then [''0123456789'' ! n]
                else [''0123456789'' ! (n div 10), ''0123456789'' ! (n mod 10)])
      in if i < 0 then CHR ''-'' # ds else ds)"

definition ex_poses :: "int rigid_transform list" where
  "ex_poses =
     [\<lparr>rotation = ((1, 0, 0), (0, 1, 0), (0, 0, 1)), tvec = (2, 3, 4)\<rparr>,
      \<lparr>rotation = ((0, -1, 0), (1, 0, 0), (0, 0, 1)), tvec = (15, -7, 0)\<rparr>]"

section \<open>Calibration lookup: results\<close>

lemma kitti_cameras_distinct:
  "kitti_00_02 \<noteq> kitti_03" "kitti_00_02 \<noteq> kitti_04_12" "kitti_03 \<noteq> kitti_04_12"
  by (simp_all add: kitti_00_02_def kitti_03_def kitti_04_12_def from_calib_params_def)

lemma py_int_examples:
  "py_int ''00'' = Some 0" "py_int ''03'' = Some 3" "py_int ''13'' = Some 13"
  by (simp_all add: py_int_def strip_def is_space_def digits_val_def is_digit_def digit_val_def)

text \<open>
  C5. For every sequence identifier \<open>s\<close> whose \<^verbatim>\<open>int(s)\<close> is the integer \<open>n\<close>,
  \<open>kitti_stereo_calib s\<close> returns the scaled kitti_00_02 calibration iff \<open>n\<close> is in 0..2,
  the scaled kitti_03 calibration iff \<open>n = 3\<close>, the scaled kitti_04_12 calibration iff
  \<open>n\<close> is in 4..12, and raises RuntimeError for every other integer; in particular
  "00" gives the 0-2 entry, "03" the 3 entry, and "13" fails.
\<close>

theorem kitti_stereo_calib_ranges:
  "py_int s = Some n \<Longrightarrow>
     (kitti_stereo_calib s scale = Inr (scaled kitti_00_02 scale) \<longleftrightarrow> 0 \<le> n \<and> n \<le> 2) \<and>
     (kitti_stereo_calib s scale = Inr (scaled kitti_03 scale) \<longleftrightarrow> n = 3) \<and>
     (kitti_stereo_calib s scale = Inr (scaled kitti_04_12 scale) \<longleftrightarrow> 4 \<le> n \<and> n \<le> 12) \<and>
     (kitti_stereo_calib s scale = Inl RuntimeError \<longleftrightarrow> n < 0 \<or> 12 < n) \<and>
     kitti_stereo_calib ''00'' scale = Inr (scaled kitti_00_02 scale) \<and>
     kitti_stereo_calib ''03'' scale = Inr (scaled kitti_03 scale) \<and>
     kitti_stereo_calib ''13'' scale = Inl RuntimeError"
  using kitti_cameras_distinct
  by (auto simp add: kitti_stereo_calib_def kitti_stereo_calib_seq_def scaled_def py_int_examples)

theorem kitti_stereo_calib_ranges_witness:
  "py_int ''07'' = Some 7 \<and>
   kitti_stereo_calib ''07'' 1 = Inr (scaled kitti_04_12 1) \<and>
   kitti_stereo_calib ''07'' 1 \<noteq> Inl RuntimeError"
proof -
  have h: "py_int ''07'' = Some 7"
    by (simp add: py_int_def strip_def is_space_def digits_val_def is_digit_def digit_val_def)
  show ?thesis using h kitti_stereo_calib_ranges [OF h, of 1] by simp
qed

section \<open>BaseKLT.matches: results\<close>

lemma matches_loop_eq:
  "matches_loop tr i1 i2 (tids, p1, p2) =
     (let q = filter (\<lambda>(tid, h). int (length h) > abs i1 \<and> int (length h) > abs i2) tr
      in Inr (tids @ map fst q,
              p1 @ map (\<lambda>(tid, h). h ! nat (if i1 < 0 then i1 + int (length h) else i1)) q,
              p2 @ map (\<lambda>(tid, h). h ! nat (if i2 < 0 then i2 + int (length h) else i2)) q))"
proof (induction tr arbitrary: tids p1 p2)
  case Nil
  show ?case by simp
next
  case (Cons t tr)
  obtain tid h where t: "t = (tid, h)" by (cases t)
  define g where "g = (\<lambda>i (h :: point list). h ! nat (if i < 0 then i + int (length h) else i))"
  define ok where "ok = (\<lambda>(h :: point list). int (length h) > abs i1 \<and> int (length h) > abs i2)"
  have IH: "\<And>tids p1 p2. matches_loop tr i1 i2 (tids, p1, p2) =
     Inr (tids @ map fst (filter (\<lambda>(tid, h). ok h) tr),
          p1 @ map (\<lambda>(tid, h). g i1 h) (filter (\<lambda>(tid, h). ok h) tr),
          p2 @ map (\<lambda>(tid, h). g i2 h) (filter (\<lambda>(tid, h). ok h) tr))"
    using Cons.IH by (simp add: Let_def g_def ok_def)
  have goal: "matches_loop ((tid, h) # tr) i1 i2 (tids, p1, p2) =
     Inr (tids @ map fst (filter (\<lambda>(tid, h). ok h) ((tid, h) # tr)),
          p1 @ map (\<lambda>(tid, h). g i1 h) (filter (\<lambda>(tid, h). ok h) ((tid, h) # tr)),
          p2 @ map (\<lambda>(tid, h). g i2 h) (filter (\<lambda>(tid, h). ok h) ((tid, h) # tr)))"
  proof (cases "ok h")
    case True
    then have a: "py_index h i1 = Inr (g i1 h)" and b: "py_index h i2 = Inr (g i2 h)"
      by (auto simp add: py_index_def g_def ok_def)
    have "matches_loop ((tid, h) # tr) i1 i2 (tids, p1, p2) =
          matches_loop tr i1 i2 (tids @ [tid], p1 @ [g i1 h], p2 @ [g i2 h])"
      using True a b by (simp add: ok_def)
    then show ?thesis using True by (simp add: IH)
  next
    case False
    then have "matches_loop ((tid, h) # tr) i1 i2 (tids, p1, p2) =
          matches_loop tr i1 i2 (tids, p1, p2)"
      by (auto simp add: ok_def)
    then show ?thesis using False by (simp add: IH)
  qed
  then show ?case by (simp add: t Let_def g_def ok_def)
qed

text \<open>
  C4 (the code at the failing input). A track manager holding one track with exactly two
  observations: both default offsets, second-to-last and last, exist in its history, and
  \<open>matches\<close> with the default offsets returns three empty arrays instead of the pair.
\<close>

theorem matches_two_observations_dropped:
  "has_offset [(1, 1), (2, 2)] (- 2) \<and> has_offset [(1, 1), (2, 2)] (- 1) \<and>
   matches \<lparr>tm_maxlen = 20, tm_next_id = 1, tm_tracks = [(0, [(1, 1), (2, 2)])]\<rparr> (- 2) (- 1)
     = Inr ([], [], [])"
  by (simp add: matches_def has_offset_def py_index_def)

section \<open>OpenCVKLT.process: helper facts\<close>











lemma draw_circles_shape: "mshape (draw_circles circle m pts) = mshape m"
  by (induction pts arbitrary: m) (simp_all split: sum.splits)

lemma create_mask_shape: "mshape (create_mask ext shp pts) = shp"
  by (simp add: create_mask_def ones255_def draw_circles_shape Let_def split: option.splits)





subsection \<open>Runs of the examples\<close>

lemmas ex_defs = ex_collaborators_def ex_blind_def ex_lost_def ex_colour_def ex_klt_def
  OpenCVKLT_def TrackManager_def

lemmas run_defs = process_def Let_def tm_pts_def tm_ids_def tm_add_def deque_append_def
  valid_pairs_def List.map_filter_def

lemmas mask_defs = create_mask_def ones255_def ex_circle_def in_disk_def pixel_def py_trunc_def
  mask_at_def np_index_def

lemma ex_fields:
  "preprocess ex_collaborators = (\<lambda>i. i)"
  "im_shape ex_collaborators = (\<lambda>i. Gray 40 40)"
  "tracker_track ex_collaborators = (\<lambda>a b ps. map (\<lambda>p. Some (30, 30)) ps)"
  "detector_process ex_collaborators = (\<lambda>i m. if px m 5 5 > 0 then [(5, 5)] else [])"
  "preprocess ex_lost = (\<lambda>i. i)"
  "im_shape ex_lost = (\<lambda>i. Gray 40 40)"
  "tracker_track ex_lost = (\<lambda>a b ps. map (\<lambda>p. None) ps)"
  "detector_process ex_lost = (\<lambda>i m. if px m 5 5 > 0 then [(5, 5)] else [])"
  "preprocess ex_colour = (\<lambda>i. i)"
  "im_shape ex_colour = (\<lambda>i. BGR 40 40)"
  "preprocess ex_lost_blind = (\<lambda>i. i)"
  "im_shape ex_lost_blind = (\<lambda>i. Gray 40 40)"
  "tracker_track ex_lost_blind = (\<lambda>a b ps. map (\<lambda>p. None) ps)"
  "detector_process ex_lost_blind = (\<lambda>i m. [])"
  by (simp_all add: ex_collaborators_def ex_lost_def ex_colour_def ex_lost_blind_def)

lemma ex_mask_30:
  "mask_at (create_mask ex_collaborators (Gray 40 40) (Some [(10, 30)])) (pixel (30, 30)) = Some 255"
  by (simp add: mask_defs ex_collaborators_def Let_def)

lemma ex_mask_near:
  "mask_at (create_mask ex_collaborators (Gray 40 40) (Some [(10, 30)])) (pixel (12, 30)) = Some 0"
  by (simp add: mask_defs ex_collaborators_def Let_def)


text \<open>A first point whose circle raises leaves the second point without a circle.\<close>

lemma ex_mask_after_raise:
  "mask_at (create_mask ex_collaborators (Gray 40 40) (Some [(10000000000, 5), (20, 20)]))
     (pixel (20, 20)) = Some 255"
  by (simp add: mask_defs ex_collaborators_def Let_def)


lemma ex_filter2:
  "filter_detected (create_mask ex_collaborators (Gray 40 40) (Some [(10, 30)]))
     [(30, 30), (12, 30)] = Inr [(30, 30)]"
  by (simp add: filter_detected_def ex_mask_30 ex_mask_near create_mask_shape)

text \<open>
  The instance \<open>ex_klt\<close> gets image 1 and two candidates: the flow step moves track 0 from
  (10, 30) to (30, 30); one track is fewer than \<open>min_tracks = 3\<close>, so the mask is drawn, around
  (10, 30); the candidate (30, 30) passes and (12, 30) does not.
\<close>

lemma ex_run_candidates:
  "process ex_collaborators ex_klt 1 (Some [(30, 30), (12, 30)]) =
     (\<lparr>self_tm = \<lparr>tm_maxlen = 20, tm_next_id = 2,
          tm_tracks = [(0, [(10, 30), (30, 30)]), (1, [(30, 30)])]\<rparr>,
       self_min_tracks = 3, self_ims = [0, 1], self_add_features = False\<rparr>,
      [Track 0 1 [(10, 30)], TmAdd [Some (30, 30)] (Some [0]) True,
       Imshow (create_mask ex_collaborators (Gray 40 40) (Some [(10, 30)])),
       TmAdd [Some (30, 30)] None False],
      Inr ([0, 1], Some [(30, 30), (30, 30)]))"
  by (simp add: run_defs ex_klt_def OpenCVKLT_def TrackManager_def ex_fields ex_filter2)

text \<open>A new instance with \<open>min_tracks = 3\<close> after the images 0 and 1.\<close>

lemma ex_px_first: "px (create_mask ex_collaborators (Gray 40 40) (Some [])) 5 5 = 255"
  by (simp add: mask_defs ex_collaborators_def Let_def)




text \<open>A new instance with \<open>min_tracks = 3\<close> gets image 0: the detector's corner is added.\<close>

lemma ex_run_first:
  "process ex_collaborators (OpenCVKLT 20 3) 0 None =
     (\<lparr>self_tm = \<lparr>tm_maxlen = 20, tm_next_id = 1, tm_tracks = [(0, [(5, 5)])]\<rparr>,
       self_min_tracks = 3, self_ims = [0], self_add_features = False\<rparr>,
      [Imshow (create_mask ex_collaborators (Gray 40 40) (Some [])),
       Detect 0 (create_mask ex_collaborators (Gray 40 40) (Some [])),
       TmAdd [Some (5, 5)] None False],
      Inr ([0], Some [(5, 5)]))"
  by (simp add: run_defs ex_klt_def OpenCVKLT_def TrackManager_def ex_fields ex_px_first)






section \<open>OpenCVKLT.process: results\<close>

text \<open>
  C1 (the claim as stated fails). A new instance has the add-features flag set. With a
  detector that finds nothing, the first \<open>process\<close> call adds no point to the track manager,
  returns normally, and leaves the flag cleared.
\<close>

theorem add_features_cleared_without_new_points:
  "self_add_features (OpenCVKLT 20 1200 :: int klt) \<and>
   self_tm (fst (process ex_blind (OpenCVKLT 20 1200) 0 None)) = self_tm (OpenCVKLT 20 1200) \<and>
   snd (snd (process ex_blind (OpenCVKLT 20 1200) 0 None)) = Inr ([], Some []) \<and>
   \<not> self_add_features (fst (process ex_blind (OpenCVKLT 20 1200) 0 None))"
  by (simp add: run_defs ex_defs)

text \<open>
  C1 (amended). The flag, once set, stays set until the replenish step of a \<open>process\<close> call
  has run: a call that returns normally leaves the flag cleared, and when the flag was set on
  entry the last thing that call did to the track manager is \<open>add(new_pts, ids=None,
  prune=False)\<close>, whether or not \<open>new_pts\<close> holds any point. A call that raises made no such
  \<open>add\<close> and leaves the flag set.
\<close>

theorem add_features_cleared_on_return:
  assumes "process ext s im dp = (s', evs, res)"
  shows "(case res of
            Inr r \<Rightarrow> \<not> self_add_features s' \<and>
                     (self_add_features s \<longrightarrow>
                        (\<exists>new. evs \<noteq> [] \<and> last evs = TmAdd (map Some new) None False))
          | Inl e \<Rightarrow> self_add_features s' \<and> (\<forall>new. TmAdd new None False \<notin> set evs))"
  using assms
  by (auto simp add: process_def Let_def tm_pts_def
      split: option.splits sum.splits prod.splits if_splits)

theorem add_features_cleared_on_return_witness:
  "self_add_features (OpenCVKLT 20 3 :: int klt) \<and>
   snd (snd (process ex_collaborators (OpenCVKLT 20 3) 0 None)) = Inr ([0], Some [(5, 5)]) \<and>
   \<not> self_add_features (fst (process ex_collaborators (OpenCVKLT 20 3) 0 None)) \<and>
   last (fst (snd (process ex_collaborators (OpenCVKLT 20 3) 0 None)))
     = TmAdd (map Some [(5, 5)]) None False"
proof -
  have f: "self_add_features (OpenCVKLT 20 3 :: int klt)"
    by (simp add: OpenCVKLT_def)
  from add_features_cleared_on_return [OF ex_run_first] f show ?thesis
    by (simp add: ex_run_first)
qed

text \<open>
  C2. For every call to \<open>process\<close>: when two preprocessed frames are buffered after the new
  one is pushed and the previously tracked points are not empty, the first two calls made
  are the flow estimator on the previous frame, the current frame and the previous points,
  and \<open>add\<close> on what it returns with the previous ids and \<open>prune=True\<close>, no other flow or
  pruning call follows, and the track manager is what that \<open>add\<close> made of it, up to the
  replenishing \<open>add\<close> of the same call; otherwise the call makes no flow or pruning call at
  all and the track manager is changed by the replenishing \<open>add\<close> only.
\<close>

theorem process_flow_step:
  assumes "process ext s im dp = (s', evs, res)"
      and "ims = deque_append 2 (self_ims s) (preprocess ext im)"
      and "tm_pts (self_tm s) = Some pp"
      and "tm_flow =
             (if length ims = 2 \<and> pp \<noteq> []
              then tm_add (self_tm s) (tracker_track ext (ims ! 0) (ims ! 1) pp)
                     (Some (tm_ids (self_tm s))) True
              else self_tm s)"
  shows "(if length ims = 2 \<and> pp \<noteq> []
          then take 2 evs = [Track (ims ! 0) (ims ! 1) pp,
                             TmAdd (tracker_track ext (ims ! 0) (ims ! 1) pp)
                               (Some (tm_ids (self_tm s))) True]
               \<and> (\<forall>e \<in> set (drop 2 evs). \<not> is_flow_call e)
          else (\<forall>e \<in> set evs. \<not> is_flow_call e)) \<and>
         ((self_tm s' = tm_flow \<and> (\<forall>new. TmAdd new None False \<notin> set evs)) \<or>
          (\<exists>new. evs \<noteq> [] \<and> last evs = TmAdd (map Some new) None False \<and>
                 self_tm s' = tm_add tm_flow (map Some new) None False))"
  using assms
  by (auto simp add: process_def Let_def tm_pts_def
      split: option.splits sum.splits prod.splits if_splits)

theorem process_flow_step_witness:
  "[0, 1] = deque_append 2 (self_ims ex_klt) (preprocess ex_collaborators 1) \<and>
   tm_pts (self_tm ex_klt) = Some [(10, 30)] \<and>
   take 2 (fst (snd (process ex_collaborators ex_klt 1 (Some [(30, 30), (12, 30)]))))
     = [Track 0 1 [(10, 30)], TmAdd [Some (30, 30)] (Some [0]) True] \<and>
   tm_add (self_tm ex_klt) [Some (30, 30)] (Some [0]) True
     = \<lparr>tm_maxlen = 20, tm_next_id = 1, tm_tracks = [(0, [(10, 30), (30, 30)])]\<rparr> \<and>
   self_tm (fst (process ex_collaborators ex_klt 1 (Some [(30, 30), (12, 30)])))
     = tm_add \<lparr>tm_maxlen = 20, tm_next_id = 1, tm_tracks = [(0, [(10, 30), (30, 30)])]\<rparr>
         [Some (30, 30)] None False \<and>
   tm_tracks (self_tm (fst (process ex_collaborators ex_klt 1 (Some [(30, 30), (12, 30)]))))
     = [(0, [(10, 30), (30, 30)]), (1, [(30, 30)])]"
proof -
  let ?flow = "\<lparr>tm_maxlen = 20, tm_next_id = 1, tm_tracks = [(0, [(10, 30), (30, 30)])]\<rparr>"
  have a: "[0, 1] = deque_append 2 (self_ims ex_klt) (preprocess ex_collaborators 1)"
    by (simp add: deque_append_def ex_defs)
  have b: "tm_pts (self_tm ex_klt) = Some [(10, 30)]"
    by (simp add: tm_pts_def ex_defs)
  have c: "tm_add (self_tm ex_klt) [Some (30, 30)] (Some [0]) True = ?flow"
    by (simp add: ex_klt_def tm_add_def valid_pairs_def List.map_filter_def deque_append_def)
  have d: "?flow =
             (if length [0 :: int, 1] = 2 \<and> [(10 :: real, 30 :: real)] \<noteq> []
              then tm_add (self_tm ex_klt)
                     (tracker_track ex_collaborators ([0, 1] ! 0) ([0, 1] ! 1) [(10, 30)])
                     (Some (tm_ids (self_tm ex_klt))) True
              else self_tm ex_klt)"
    by (simp add: ex_fields ex_klt_def tm_ids_def tm_add_def valid_pairs_def
        List.map_filter_def deque_append_def)
  have t: "\<not> (\<forall>new. TmAdd new None False \<notin> set
             [Track (0 :: int) 1 [(10, 30)], TmAdd [Some (30, 30)] (Some [0]) True,
              Imshow (create_mask ex_collaborators (Gray 40 40) (Some [(10, 30)])),
              TmAdd [Some (30, 30)] None False])"
    by simp
  have l: "last [Track (0 :: int) 1 [(10, 30)], TmAdd [Some (30, 30)] (Some [0]) True,
              Imshow (create_mask ex_collaborators (Gray 40 40) (Some [(10, 30)])),
              TmAdd [Some (30, 30)] None False] = TmAdd (map Some [(30, 30)]) None False"
    by simp
  let ?S = "\<lparr>self_tm = \<lparr>tm_maxlen = 20, tm_next_id = 2,
                 tm_tracks = [(0, [(10, 30), (30, 30)]), (1, [(30, 30)])]\<rparr>,
               self_min_tracks = 3, self_ims = [0 :: int, 1], self_add_features = False\<rparr>"
  let ?E = "[Track (0 :: int) 1 [(10, 30)], TmAdd [Some (30, 30)] (Some [0]) True,
              Imshow (create_mask ex_collaborators (Gray 40 40) (Some [(10, 30)])),
              TmAdd [Some (30, 30)] None False]"
  have "(self_tm ?S = ?flow \<and> (\<forall>new. TmAdd new None False \<notin> set ?E)) \<or>
        (\<exists>new. ?E \<noteq> [] \<and> last ?E = TmAdd (map Some new) None False \<and>
               self_tm ?S = tm_add ?flow (map Some new) None False)"
    by (rule conjunct2 [OF process_flow_step [OF ex_run_candidates a b d]])
  with t obtain new where n: "last ?E = TmAdd (map Some new) None False"
    and e: "self_tm ?S = tm_add ?flow (map Some new) None False"
    by blast
  from n l have "map Some new = map Some [(30, 30)]" by simp
  then have new: "new = [(30, 30)]"
    by (simp only: inj_map_eq_map [OF inj_Some])
  from e new have f: "self_tm (fst (process ex_collaborators ex_klt 1 (Some [(30, 30), (12, 30)])))
     = tm_add ?flow [Some (30, 30)] None False"
    by (simp add: ex_run_candidates)
  have g: "take 2 (fst (snd (process ex_collaborators ex_klt 1 (Some [(30, 30), (12, 30)]))))
     = [Track 0 1 [(10, 30)], TmAdd [Some (30, 30)] (Some [0]) True]"
    by (simp add: ex_run_candidates)
  have h: "tm_tracks (self_tm (fst (process ex_collaborators ex_klt 1 (Some [(30, 30), (12, 30)]))))
     = [(0, [(10, 30), (30, 30)]), (1, [(30, 30)])]"
    by (simp add: ex_run_candidates)
  from a b c f g h show ?thesis by blast
qed

text \<open>
  C3 (the code at the failing input). \<open>ex_klt\<close> tracks one point, at (10, 30). The call
  gets the candidates (30, 30) and (12, 30). The flow step moves the tracked point to
  (30, 30); the mask is then drawn around (10, 30), where the point was before the flow step:
  (12, 30) is refused, and (30, 30) is registered as the new track 1, on the very place
  where track 0 now is.
\<close>

theorem new_feature_on_tracked_point:
  "tm_pts (self_tm ex_klt) = Some [(10, 30)] \<and>
   tm_tracks (self_tm (fst (process ex_collaborators ex_klt 1 (Some [(30, 30), (12, 30)]))))
     = [(0, [(10, 30), (30, 30)]), (1, [(30, 30)])] \<and>
   snd (snd (process ex_collaborators ex_klt 1 (Some [(30, 30), (12, 30)])))
     = Inr ([0, 1], Some [(30, 30), (30, 30)])"
  by (simp add: ex_run_candidates) (simp add: tm_pts_def ex_klt_def)






section \<open>Dataset composers: results\<close>

text \<open>
  What \<open>KITTIDatasetReader\<close> does with its optional readers: once the calibration and the
  stereo reader are there, construction succeeds, and a pose or velodyne reader that raises
  is replaced by \<^verbatim>\<open>repeat(None)\<close>.
\<close>

lemma KITTIDatasetReader_optional:
  assumes "kitti_stereo_calib sequence scale = Inr cal"
    and "StereoDatasetReader fs
           (path_join (path_join (expanduser fs directory) ''sequences'') sequence)
           (path_join (path_join (path_join (expanduser fs directory) ''sequences'') sequence) lt)
           (path_join (path_join (path_join (expanduser fs directory) ''sequences'') sequence) rt)
         = Inr st"
  shows "\<exists>r. KITTIDatasetReader fs directory sequence lt rt vt scale = Inr r \<and>
           (FileReader fs (path_join (path_join (expanduser fs directory) ''poses'')
                            (sequence @ ''.txt'')) = Inl e \<longrightarrow> self_poses r = RepeatNone) \<and>
           (VelodyneDatasetReader fs
              (path_join (path_join (path_join (expanduser fs directory) ''sequences'') sequence) vt)
              = Inl e' \<longrightarrow> self_velodyne r = RepeatNone)"
  using assms by (simp add: KITTIDatasetReader_def Let_def or_repeat_none_def)

text \<open>A composer whose poses are \<^verbatim>\<open>repeat(None)\<close> yields no frame: \<open>iterframes\<close> raises.\<close>

lemma iterframes_repeat_none:
  "self_poses r = RepeatNone \<Longrightarrow> iterframes r = ([], Some AttributeError)"
  by (simp add: iterframes_def)

lemma gt_iterframes_constructed:
  "KITTIStereoGroundTruthDatasetReader fs directory is_2015 scale = Inr g \<Longrightarrow>
     gt_iterframes g = ([], Some AttributeError)"
  by (auto simp add: KITTIStereoGroundTruthDatasetReader_def gt_iterframes_def Let_def
      split: sum.splits if_splits)

text \<open>
  C6 (the code at the failing input). On a dataset without velodyne scans, where the
  velodyne reader raises IOError and every other reader succeeds, \<open>KITTIDatasetReader\<close> is
  constructed with \<^verbatim>\<open>repeat(None)\<close> for the scans, and \<open>KITTIRawDatasetReader\<close>, which builds
  the velodyne reader once more outside any \<^verbatim>\<open>try\<close>, raises the IOError.
\<close>

theorem raw_reader_fails_without_velodyne:
  "map_sum id self_velodyne
     (KITTIDatasetReader ex_fs ''data'' ''00'' ''image_0/%06i.png'' ''image_1/%06i.png''
        ''velodyne/%06i.bin'' 1) = Inr RepeatNone \<and>
   KITTIRawDatasetReader ex_fs ''data'' ''00'' ''image_00/data/%010i.png''
     ''image_01/data/%010i.png'' ''velodyne_points/data/%010i.bin'' ''oxts/data/%010i.txt'' 1
     = Inl IOError"
  by (simp add: KITTIRawDatasetReader_def KITTIDatasetReader_def kitti_stereo_calib_def
      py_int_examples kitti_stereo_calib_seq_def ex_fs_def or_repeat_none_def Let_def)

text \<open>
  C10. Every frame record yielded by \<open>KITTIDatasetReader.iterframes\<close> and by
  \<open>KITTIStereoGroundTruthDatasetReader.iterframes\<close> has its velodyne field equal to None,
  whatever the composer holds as its velodyne reader.
\<close>

theorem iterframes_velodyne_none:
  "(\<forall>f \<in> set (fst (iterframes r)). velodyne f = None) \<and>
   (\<forall>f \<in> set (fst (gt_iterframes g)). velodyne f = None)"
  by (auto simp add: iterframes_def gt_iterframes_def split: source.splits)

theorem iterframes_velodyne_none_witness:
  "self_velodyne ex_reader = Reader [5, 6] \<and>
   iter_velodyne_frames ex_reader = Inr [5, 6] \<and>
   fst (iterframes ex_reader) =
     [\<lparr>left = 1, right = 2, velodyne = None, pose = 10\<rparr>,
      \<lparr>left = 3, right = 4, velodyne = None, pose = 20\<rparr>] \<and>
   \<lparr>left = 1, right = 2, velodyne = None, pose = 10\<rparr> \<in> set (fst (gt_iterframes ex_gt_reader)) \<and>
   velodyne (hd (fst (iterframes ex_reader))) = None \<and>
   velodyne (hd (fst (gt_iterframes ex_gt_reader))) = None"
  using iterframes_velodyne_none [of ex_reader ex_gt_reader]
  by (simp add: iterframes_def gt_iterframes_def iter_velodyne_frames_def ex_reader_def
      ex_gt_reader_def)

section \<open>Pose files: results\<close>

lemma tokens_word: "\<forall>c \<in> set t. \<not> is_space c \<Longrightarrow> tokens cur (t @ rest) = tokens (cur @ t) rest"
  by (induction t arbitrary: cur) auto

lemma tokens_line:
  assumes "ts \<noteq> []" "\<forall>t \<in> set ts. tok_ok t" "rest = [] \<or> is_space (hd rest)"
  shows "tokens [] (py_join '' '' ts @ rest) = ts @ tokens [] rest"
  using assms
proof (induction "'' ''" ts rule: py_join.induct)
  case 1
  then show ?case by simp
next
  case (2 x)
  then have x: "x \<noteq> []" "\<forall>c \<in> set x. \<not> is_space c" by (simp_all add: tok_ok_def)
  show ?case
  proof (cases rest)
    case Nil
    then show ?thesis using x tokens_word [of x "[]" "[]"] by simp
  next
    case (Cons c r)
    with 2 have "is_space c" by simp
    then show ?thesis using x Cons tokens_word [of x "[]" "c # r"] by simp
  qed
next
  case (3 x y ys)
  then have x: "x \<noteq> []" "\<forall>c \<in> set x. \<not> is_space c" by (simp_all add: tok_ok_def)
  have sp: "is_space CHR '' ''" by (simp add: is_space_def)
  have "tokens [] (py_join '' '' (x # y # ys) @ rest)
        = tokens x (CHR '' '' # (py_join '' '' (y # ys) @ rest))"
    using x tokens_word [of x "[]" "CHR '' '' # (py_join '' '' (y # ys) @ rest)"] by simp
  also have "\<dots> = x # tokens [] (py_join '' '' (y # ys) @ rest)"
    using x sp by simp
  also have "\<dots> = x # (y # ys) @ tokens [] rest"
    using 3 by simp
  finally show ?case by simp
qed

lemma tokens_lines:
  assumes "\<forall>ts \<in> set tss. ts \<noteq> [] \<and> (\<forall>t \<in> set ts. tok_ok t)"
  shows "tokens [] (py_join [CHR 0x0D, CHR 0x0A] (map (py_join '' '') tss)) = concat tss"
  using assms
proof (induction tss rule: induct_list012)
  case 1
  then show ?case by simp
next
  case (2 ts)
  then show ?case using tokens_line [of ts "[]"] by simp
next
  case (3 ts us tss)
  have sp: "is_space (CHR 0x0D)" "is_space (CHR 0x0A)" by (simp_all add: is_space_def)
  let ?R = "py_join [CHR 0x0D, CHR 0x0A] (map (py_join '' '') (us # tss))"
  have "tokens [] (py_join '' '' ts @ (CHR 0x0D # CHR 0x0A # ?R)) = ts @ tokens [] (CHR 0x0D # CHR 0x0A # ?R)"
    using 3(3) sp by (intro tokens_line) simp_all
  also have "tokens [] (CHR 0x0D # CHR 0x0A # ?R) = tokens [] ?R"
    using sp by simp
  also have "tokens [] ?R = concat (us # tss)"
    using 3 by simp
  finally show ?case by simp
qed


lemma parse_prefix_all:
  "\<forall>v \<in> set vs. parse (str v) = Some (conv v) \<Longrightarrow>
     parse_prefix parse (map str vs) = map conv vs"
  by (induction vs) simp_all

lemma matrix34_flat_length: "length (matrix34_flat x) = 12"
  by (simp add: matrix34_flat_def split: prod.splits)

lemma matrix34_flat_map_pose: "matrix34_flat (map_pose conv x) = map conv (matrix34_flat x)"
  by (simp add: matrix34_flat_def map_pose_def split: prod.splits)

lemma row_to_pose_flat: "row_to_pose (matrix34_flat x) = x"
  by (cases x) (simp add: row_to_pose_def matrix34_flat_def from_Rt_def split: prod.splits)

lemma reshape12_flat:
  "reshape12 (concat (map matrix34_flat xs)) = Some (map matrix34_flat xs)"
proof (induction xs)
  case Nil
  show ?case by simp
next
  case (Cons x xs)
  have "\<exists>a b c d e f g h i j k l. matrix34_flat x = [a, b, c, d, e, f, g, h, i, j, k, l]"
    by (simp add: matrix34_flat_def split: prod.splits)
  then obtain a b c d e f g h i j k l
    where x: "matrix34_flat x = [a, b, c, d, e, f, g, h, i, j, k, l]"
    by blast
  show ?case by (simp add: x Cons.IH)
qed

text \<open>
  C9. For every list of poses, writing them with \<open>kitti_poses_to_str\<close> (one line of twelve
  items per pose, the top three rows of the transform) and reading that text with
  \<open>kitti_load_poses\<close> gives back poses whose rotation and translation are those of the
  originals, entry by entry, up to the conversion of a float to a string and back: whenever
  the string of every entry is a non-empty item without whitespace that reads back as
  \<open>conv\<close> of the entry.
\<close>

theorem kitti_poses_round_trip:
  assumes "\<forall>x \<in> set poses. \<forall>v \<in> set (matrix34_flat x).
             str v \<noteq> [] \<and> (\<forall>c \<in> set (str v). \<not> is_space c) \<and> parse (str v) = Some (conv v)"
  shows "kitti_load_poses parse (kitti_poses_to_str str poses) = Inr (map (map_pose conv) poses)"
proof -
  let ?tss = "map (\<lambda>x. map str (matrix34_flat x)) poses"
  have ok: "\<forall>ts \<in> set ?tss. ts \<noteq> [] \<and> (\<forall>t \<in> set ts. tok_ok t)"
  proof
    fix ts assume "ts \<in> set ?tss"
    then obtain x where x: "x \<in> set poses" "ts = map str (matrix34_flat x)" by auto
    have "length ts = 12" by (simp add: x(2) matrix34_flat_length)
    then have ne: "ts \<noteq> []" by auto
    have "\<forall>t \<in> set ts. tok_ok t"
      using assms x by (auto simp add: tok_ok_def)
    with ne show "ts \<noteq> [] \<and> (\<forall>t \<in> set ts. tok_ok t)" by simp
  qed
  have "kitti_poses_to_str str poses = py_join [CHR 0x0D, CHR 0x0A] (map (py_join '' '') ?tss)"
    by (simp add: kitti_poses_to_str_def comp_def)
  then have "tokens [] (kitti_poses_to_str str poses) = concat ?tss"
    using tokens_lines [OF ok] by simp
  also have "\<dots> = map str (concat (map matrix34_flat poses))"
    by (simp add: map_concat comp_def)
  finally have "np_fromfile parse (kitti_poses_to_str str poses)
                  = map conv (concat (map matrix34_flat poses))"
    using assms by (simp add: np_fromfile_def parse_prefix_all)
  also have "\<dots> = concat (map matrix34_flat (map (map_pose conv) poses))"
    by (simp add: map_concat comp_def matrix34_flat_map_pose)
  finally have "reshape12 (np_fromfile parse (kitti_poses_to_str str poses))
                  = Some (map matrix34_flat (map (map_pose conv) poses))"
    by (simp only: reshape12_flat)
  then show ?thesis
    by (simp add: kitti_load_poses_def comp_def row_to_pose_flat)
qed

lemma ex_str_ok:
  "\<forall>x \<in> set ex_poses. \<forall>v \<in> set (matrix34_flat x).
     ex_str v \<noteq> [] \<and> (\<forall>c \<in> set (ex_str v). \<not> is_space c) \<and> py_int (ex_str v) = Some v"
  by (simp add: ex_poses_def matrix34_flat_def ex_str_def is_space_def py_int_def strip_def
      digits_val_def is_digit_def digit_val_def)

theorem kitti_poses_round_trip_witness:
  "ex_str 15 = ''15'' \<and> py_int (ex_str (- 7)) = Some (- 7) \<and>
   kitti_load_poses py_int (kitti_poses_to_str ex_str ex_poses) = Inr ex_poses"
proof -
  have m: "map (map_pose (\<lambda>v. v)) ex_poses = ex_poses"
    by (simp add: ex_poses_def map_pose_def)
  have a: "ex_str 15 = ''15''"
    by (simp add: ex_str_def)
  have b: "py_int (ex_str (- 7)) = Some (- 7)"
    by (simp add: ex_str_def py_int_def strip_def is_space_def digits_val_def is_digit_def
        digit_val_def)
  have "kitti_load_poses py_int (kitti_poses_to_str ex_str ex_poses) = Inr ex_poses"
    using kitti_poses_round_trip [where conv = "\<lambda>v. v", OF ex_str_ok] by (simp only: m)
  with a b show ?thesis by blast
qed

end
